theory Spec2Isabelle
  imports Main "HOL-Library.Sublist"
begin

section \<open>Python strings\<close>

text \<open>
  A Python \<^verbatim>\<open>str\<close> is a sequence of Unicode code points; it is modelled as the list
  of those code points. The literals of the source are ASCII and are written as HOL
  strings, one literal per source line, and embedded by \<open>lit\<close>. The operator
  \<^verbatim>\<open>x in s\<close> on strings is \<^const>\<open>sublist\<close> (a contiguous occurrence), and
  \<^verbatim>\<open>s.startswith(x)\<close> is \<^const>\<open>prefix\<close>.
\<close>

type_synonym str = "nat list"

definition lit :: "string \<Rightarrow> str" where
  "lit s = map of_char s"

text \<open>
  \<^verbatim>\<open>str.isspace\<close> on one code point: the table of CPython's
  \<^verbatim>\<open>_PyUnicode_IsWhitespace\<close>, which \<^verbatim>\<open>str.strip()\<close> without an argument uses.
\<close>

definition isspace :: "nat \<Rightarrow> bool" where
  "isspace c \<longleftrightarrow>
     (0x09 \<le> c \<and> c \<le> 0x0D) \<or> (0x1C \<le> c \<and> c \<le> 0x20) \<or> c = 0x85 \<or> c = 0xA0 \<or>
     c = 0x1680 \<or> (0x2000 \<le> c \<and> c \<le> 0x200A) \<or> c = 0x2028 \<or> c = 0x2029 \<or>
     c = 0x202F \<or> c = 0x205F \<or> c = 0x3000"

definition str_lstrip :: "str \<Rightarrow> str" where
  "str_lstrip s = dropWhile isspace s"

definition str_rstrip :: "str \<Rightarrow> str" where
  "str_rstrip s = rev (dropWhile isspace (rev s))"

definition str_strip :: "str \<Rightarrow> str" where
  "str_strip s = str_rstrip (str_lstrip s)"

text \<open>
  \<^verbatim>\<open>s.replace(old, new)\<close>: every occurrence of \<open>old\<close> is replaced, scanning from the
  left and resuming after each occurrence replaced (occurrences do not overlap). For an
  empty \<open>old\<close> Python puts \<open>new\<close> before every code point and at the end.
\<close>

function str_replace :: "str \<Rightarrow> str \<Rightarrow> str \<Rightarrow> str" where
  "str_replace old new s =
     (if old = [] then new @ concat (map (\<lambda>c. c # new) s)
      else if s = [] then []
      else if prefix old s then new @ str_replace old new (drop (length old) s)
      else hd s # str_replace old new (tl s))"
  by pat_completeness auto
termination
  by (relation "measure (\<lambda>(old, new, s). length s)") auto

text \<open>\<^verbatim>\<open>s * n\<close> on strings.\<close>

definition str_times :: "str \<Rightarrow> nat \<Rightarrow> str" where
  "str_times s n = concat (replicate n s)"

section \<open>Tools and agents\<close>

text \<open>
  The two tool objects of the module, and the descriptors handed to the orchestration
  framework. \<^verbatim>\<open>Agent\<close>, \<^verbatim>\<open>Task\<close> and \<^verbatim>\<open>Crew\<close> are classes of the
  framework; here they are the records of the keyword arguments the source passes. An
  agent built without \<^verbatim>\<open>allow_delegation\<close> leaves the choice to the framework
  (\<open>None\<close>).
\<close>

datatype Tool = SerperDevTool (n_results: nat) (country: str) (locale_t: str) | ScrapeWebsiteTool

definition search_tool :: Tool where
  "search_tool = SerperDevTool 10 (lit ''ru'') (lit ''ru'')"

definition scrape_tool :: Tool where
  "scrape_tool = ScrapeWebsiteTool"

record Agent =
  role :: str
  goal :: str
  backstory :: str
  tools :: "Tool list"
  verbose :: bool
  allow_delegation :: "bool option"

definition lead_analyst :: Agent where
  "lead_analyst = \<lparr>
     role = lit ''Lead OSINT Analyst'',
     goal = lit ''Coordinate OSINT research and analyze collected data'',
     backstory =
       lit (''An experienced analyst with deep OSINT knowledge. \<newline>'' @
            ''    Specializes in building comprehensive profiles based on digital footprints.\<newline>'' @
            ''    Skilled in effective task delegation and integrating various information sources.''),
     tools = [search_tool],
     verbose = True,
     allow_delegation = Some True \<rparr>"

definition social_expert :: Agent where
  "social_expert = \<lparr>
     role = lit ''Social Media Expert'',
     goal = lit ''Find and analyze social media profiles'',
     backstory =
       lit (''A specialist in social media analysis and online behavior.\<newline>'' @
            ''    Skilled in finding related accounts and identifying activity patterns.''),
     tools = [search_tool, scrape_tool],
     verbose = True,
     allow_delegation = None \<rparr>"

definition technical_analyst :: Agent where
  "technical_analyst = \<lparr>
     role = lit ''Technical Analyst'',
     goal = lit ''Analyze technical information and digital footprints'',
     backstory =
       lit (''An expert in technical intelligence.\<newline>'' @
            ''    Specializes in analyzing domains, IPs, data leaks, and technical metadata.''),
     tools = [search_tool, scrape_tool],
     verbose = True,
     allow_delegation = None \<rparr>"

definition behavior_analyst :: Agent where
  "behavior_analyst = \<lparr>
     role = lit ''Behavioral Analyst'',
     goal = lit ''Analyze behavioral patterns and connections'',
     backstory =
       lit (''A specialist in behavioral analysis.\<newline>'' @
            ''    Skilled in identifying interests, connections, and behavior patterns based on digital footprints.''),
     tools = [search_tool],
     verbose = True,
     allow_delegation = None \<rparr>"

definition verification_expert :: Agent where
  "verification_expert = \<lparr>
     role = lit ''Data Verification Expert'',
     goal = lit ''Verify the reliability of collected information'',
     backstory =
       lit (''A specialist in verifying and confirming OSINT data.\<newline>'' @
            ''    Uses cross-reference analysis and multiple sources for verification.\<newline>'' @
            ''    Skilled in identifying misinformation and false leads.''),
     tools = [search_tool, scrape_tool],
     verbose = True,
     allow_delegation = None \<rparr>"

definition deep_search_expert :: Agent where
  "deep_search_expert = \<lparr>
     role = lit ''Deep Search Expert'',
     goal = lit ''Find hidden and hard-to-access information'',
     backstory =
       lit (''A specialist in deep OSINT search.\<newline>'' @
            ''    Skilled in finding information in archives, historical data, and specialized databases.\<newline>'' @
            ''    Specializes in uncovering non-obvious connections and hidden data.''),
     tools = [search_tool, scrape_tool],
     verbose = True,
     allow_delegation = None \<rparr>"

definition task_keeper :: Agent where
  "task_keeper = \<lparr>
     role = lit ''Task Keeper'',
     goal = lit ''Ensure the research stays focused on the assigned task'',
     backstory =
       lit (''A specialist in managing research focus.\<newline>'' @
            ''    Tracks the alignment of all actions with the initial task.\<newline>'' @
            ''    Helps agents stay on track with the research goal.''),
     tools = [search_tool],
     verbose = True,
     allow_delegation = None \<rparr>"

definition context_analyst :: Agent where
  "context_analyst = \<lparr>
     role = lit ''Context Analyst'',
     goal = lit ''Maintain contextual integrity of the investigation'',
     backstory =
       lit (''An expert in contextual analysis.\<newline>'' @
            ''    Combines disparate data into a unified context.\<newline>'' @
            ''    Tracks the relevance of information relative to the task.''),
     tools = [search_tool],
     verbose = True,
     allow_delegation = None \<rparr>"

definition manager_agent :: Agent where
  "manager_agent = \<lparr>
     role = lit ''OSINT Manager'',
     goal = lit ''Manage the investigation process and coordinate agent work'',
     backstory =
       lit (''An experienced OSINT investigation leader.\<newline>'' @
            ''    Specializes in coordinating complex investigations and managing a team of analysts.\<newline>'' @
            ''    Ensures effective agent interaction and result quality.''),
     tools = [],
     verbose = True,
     allow_delegation = Some True \<rparr>"

section \<open>The investigation plan\<close>

record Task =
  description :: str
  expected_output :: str
  agent :: Agent

definition create_investigation_plan :: "str \<Rightarrow> Task list" where
  "create_investigation_plan target =
    [\<lparr> description =
         lit (''\<newline>'' @
              ''        Conduct a preliminary analysis of the target: '') @
            target @
            lit (''\<newline>'' @
              ''        1. Identify main presence platforms\<newline>'' @
              ''        2. Find key identifiers (email, username, etc.)\<newline>'' @
              ''        3. Create an initial profile\<newline>'' @
              ''        4. Determine priority areas for deep analysis\<newline>'' @
              ''        \<newline>'' @
              ''        Delegate subtasks to other agents if necessary.\<newline>'' @
              ''        ''),
       expected_output =
         lit (''Provide a structured report containing:\<newline>'' @
              ''        1. List of found platforms\<newline>'' @
              ''        2. Found identifiers\<newline>'' @
              ''        3. Brief target profile\<newline>'' @
              ''        4. Priority areas for further analysis''),
       agent = lead_analyst \<rparr>,
     \<lparr> description =
         lit (''\<newline>'' @
              ''        Based on the preliminary analysis, investigate the social networks of '') @
            target @
            lit ('':\<newline>'' @
              ''        1. Find all related profiles\<newline>'' @
              ''        2. Analyze contacts and connections\<newline>'' @
              ''        3. Study activity history\<newline>'' @
              ''        4. Identify behavioral patterns\<newline>'' @
              ''        ''),
       expected_output =
         lit (''Provide a report including:\<newline>'' @
              ''        1. List of found profiles with links\<newline>'' @
              ''        2. Main contacts and connections\<newline>'' @
              ''        3. Key points from activity history\<newline>'' @
              ''        4. Identified behavioral patterns''),
       agent = social_expert \<rparr>,
     \<lparr> description =
         lit (''\<newline>'' @
              ''        Conduct a technical analysis of the found data on '') @
            target @
            lit ('':\<newline>'' @
              ''        1. Check for data leaks\<newline>'' @
              ''        2. Find related domains and IPs\<newline>'' @
              ''        3. Analyze technical metadata\<newline>'' @
              ''        4. Investigate digital footprints\<newline>'' @
              ''        ''),
       expected_output =
         lit (''Provide a technical report containing:\<newline>'' @
              ''        1. Found data leaks\<newline>'' @
              ''        2. List of related technical identifiers\<newline>'' @
              ''        3. Metadata analysis\<newline>'' @
              ''        4. Digital footprint map''),
       agent = technical_analyst \<rparr>,
     \<lparr> description =
         lit (''\<newline>'' @
              ''        Based on the collected data, analyze the behavior of '') @
            target @
            lit ('':\<newline>'' @
              ''        1. Determine main interests\<newline>'' @
              ''        2. Identify behavioral patterns\<newline>'' @
              ''        3. Analyze social connections\<newline>'' @
              ''        4. Create a psychological profile\<newline>'' @
              ''        ''),
       expected_output =
         lit (''Provide a behavioral analysis including:\<newline>'' @
              ''        1. Interest map\<newline>'' @
              ''        2. Description of behavioral patterns\<newline>'' @
              ''        3. Social connection diagram\<newline>'' @
              ''        4. Psychological profile''),
       agent = behavior_analyst \<rparr>,
     \<lparr> description =
         lit (''\<newline>'' @
              ''        Analyze all collected data on '') @
            target @
            lit ('':\<newline>'' @
              ''        1. Combine information from all agents\<newline>'' @
              ''        2. Identify data gaps\<newline>'' @
              ''        3. Plan additional search directions\<newline>'' @
              ''        4. Create a detailed target profile\<newline>'' @
              ''        ''),
       expected_output =
         lit (''Provide a final report containing:\<newline>'' @
              ''        1. Complete target profile\<newline>'' @
              ''        2. Identified data gaps\<newline>'' @
              ''        3. Plan for further investigation\<newline>'' @
              ''        4. Main conclusions and recommendations''),
       agent = lead_analyst \<rparr>,
     \<lparr> description =
         lit (''\<newline>'' @
              ''        Conduct a deep search for information on '') @
            target @
            lit ('':\<newline>'' @
              ''        1. Investigate archival data and historical records\<newline>'' @
              ''        2. Analyze specialized databases\<newline>'' @
              ''        3. Find non-obvious connections and mentions\<newline>'' @
              ''        4. Investigate rare and specific sources\<newline>'' @
              ''        ''),
       expected_output =
         lit (''Provide a detailed report including:\<newline>'' @
              ''        1. Found archival data\<newline>'' @
              ''        2. Results from specialized database searches\<newline>'' @
              ''        3. Identified non-obvious connections\<newline>'' @
              ''        4. Information from rare sources''),
       agent = deep_search_expert \<rparr>,
     \<lparr> description =
         lit (''\<newline>'' @
              ''        Verify the reliability of all collected information on '') @
            target @
            lit ('':\<newline>'' @
              ''        1. Conduct cross-reference analysis of data\<newline>'' @
              ''        2. Confirm information from multiple sources\<newline>'' @
              ''        3. Identify possible misinformation\<newline>'' @
              ''        4. Assess the reliability of each source\<newline>'' @
              ''        ''),
       expected_output =
         lit (''Provide a verification report including:\<newline>'' @
              ''        1. Confirmed data with sources\<newline>'' @
              ''        2. Debunked information\<newline>'' @
              ''        3. Data requiring additional verification\<newline>'' @
              ''        4. Source reliability assessment''),
       agent = verification_expert \<rparr>]"

section \<open>The query normalizer\<close>

text \<open>
  \<^verbatim>\<open>parse_osint_query\<close>: when the prompt text occurs in the query, the query is
  replaced by itself with every occurrence removed and then stripped; the f-string puts
  the query at two places of a fixed text.
\<close>

definition parse_osint_query :: "str \<Rightarrow> str" where
  "parse_osint_query query0 =
     (let query =
            (if sublist (lit ''Enter target for OSINT:'') query0
             then str_strip (str_replace (lit ''Enter target for OSINT:'') (lit '''') query0)
             else query0);
          task_description =
            lit (''\<newline>'' @
              ''    Investigation target: '') @
            query @
            lit (''\<newline>'' @
              ''    \<newline>'' @
              ''    Required:\<newline>'' @
              ''    1. Find all available information on the target\<newline>'' @
              ''    2. Verify provided assumptions about age\<newline>'' @
              ''    3. If requested - determine the birth month\<newline>'' @
              ''    4. If requested - check presence on specialized forums\<newline>'' @
              ''    \<newline>'' @
              ''    Original query: '') @
            query @
            lit (''\<newline>'' @
              ''    '')
      in task_description)"

section \<open>The world of a run\<close>

text \<open>
  An exception value. \<open>Exception m\<close> is an instance of the class
  \<^verbatim>\<open>Exception\<close> (or of a subclass) whose \<^verbatim>\<open>str(e)\<close> is \<open>m\<close>;
  \<open>BaseException m\<close> is an exception outside that class (\<^verbatim>\<open>KeyboardInterrupt\<close>,
  \<^verbatim>\<open>SystemExit\<close>, \<^verbatim>\<open>GeneratorExit\<close>, \<^verbatim>\<open>asyncio.CancelledError\<close>), which
  \<^verbatim>\<open>except Exception\<close> does not catch.
\<close>

datatype exn = Exception str | BaseException str

text \<open>
  The object \<^verbatim>\<open>crew.kickoff()\<close> returns is opaque to this program, which only
  converts it to text (\<^verbatim>\<open>str(result)\<close>, which may raise) and tests its truth value
  (\<^verbatim>\<open>if result:\<close>).
\<close>

record Result =
  res_str :: "exn + str"
  res_bool :: bool

datatype Process = Process_sequential | Process_hierarchical

record Crew =
  crew_agents :: "Agent list"
  crew_tasks :: "Task list"
  crew_verbose :: bool
  crew_process :: Process
  crew_manager_agent :: Agent
  crew_memory :: bool
  crew_planning :: bool

text \<open>
  A \<^verbatim>\<open>datetime\<close> value (the microseconds are not used), and
  \<^verbatim>\<open>strftime('%Y%m%d_%H%M%S')\<close>: the year padded with zeros to four digits and the
  other fields to two. For a year below 1000 the padding of \<^verbatim>\<open>%Y\<close> depends on the
  platform; \<open>valid_datetime\<close> holds of the values with a year from 1000 to 9999 and the
  other fields in their calendar ranges, among them every reading of a present-day clock.
\<close>

record datetime =
  year :: nat
  month :: nat
  day :: nat
  hour :: nat
  minute :: nat
  second :: nat


function decimal :: "nat \<Rightarrow> str" where
  "decimal n = (if n < 10 then [48 + n] else decimal (n div 10) @ [48 + n mod 10])"
  by pat_completeness auto
termination
  by (relation "measure (\<lambda>n. n)") auto

definition zfill :: "nat \<Rightarrow> str \<Rightarrow> str" where
  "zfill k s = replicate (k - length s) 48 @ s"

definition strftime :: "datetime \<Rightarrow> str" where
  "strftime d =
     zfill 4 (decimal (year d)) @ zfill 2 (decimal (month d)) @ zfill 2 (decimal (day d)) @
     lit ''_'' @
     zfill 2 (decimal (hour d)) @ zfill 2 (decimal (minute d)) @ zfill 2 (decimal (second d))"


text \<open>
  Everything outside the program that a run depends on or changes:
  \<^item> \<open>clock w n\<close> is what the \<open>n\<close>-th call of \<^verbatim>\<open>datetime.now()\<close> returns, and
    \<open>ticks\<close> counts the calls made;
  \<^item> \<open>crew_outcome w n c\<close> is how the \<open>n\<close>-th orchestration (\<^verbatim>\<open>Crew(...)\<close> built from
    the descriptors \<open>c\<close>, then \<^verbatim>\<open>crew.kickoff()\<close>) ends: an exception raised by the
    framework or the result object; \<open>kickoffs\<close> counts them. What the framework does
    to the file system on its own is not part of the model;
  \<^item> \<open>io_fault w n\<close> is the exception the \<open>n\<close>-th file operation of the program raises
    (\<^verbatim>\<open>OSError\<close>, \<^verbatim>\<open>UnicodeEncodeError\<close>), if it raises; a faulty operation has
    no effect; \<open>io_ops\<close> counts the operations;
  \<^item> \<open>dirs\<close> and \<open>files\<close> are the directories and the text files on disk, by path,
    a file's content as the text read back from it;
  \<^item> \<open>stdout\<close> is the text written to standard output and \<open>stdin\<close> the lines still
    to be read from standard input.

  What the module does once when it is loaded (it creates the directories
  \<^verbatim>\<open>./crew_memory\<close> and \<^verbatim>\<open>./osint_results\<close> and sets three environment variables)
  comes before every run and is not repeated here.
\<close>

record world =
  clock :: "nat \<Rightarrow> datetime"
  ticks :: nat
  crew_outcome :: "nat \<Rightarrow> Crew \<Rightarrow> exn + Result"
  kickoffs :: nat
  io_fault :: "nat \<Rightarrow> exn option"
  io_ops :: nat
  dirs :: "str set"
  files :: "str \<rightharpoonup> str"
  stdout :: str
  stdin :: "str list"

text \<open>
  A statement is a function from the world to an outcome (\<open>Inl\<close> an exception raised,
  \<open>Inr\<close> a value) and the world after it; \<open>bind\<close> is sequencing, in which an
  exception skips what follows.
\<close>

type_synonym 'a stmt = "world \<Rightarrow> (exn + 'a) \<times> world"

definition ret :: "'a \<Rightarrow> 'a stmt" where
  "ret a w = (Inr a, w)"

definition bind :: "'a stmt \<Rightarrow> ('a \<Rightarrow> 'b stmt) \<Rightarrow> 'b stmt" where
  "bind m f w = (case m w of (Inl e, w') \<Rightarrow> (Inl e, w') | (Inr a, w') \<Rightarrow> f a w')"

definition now :: "datetime stmt" where
  "now w = (Inr (clock w (ticks w)), w\<lparr>ticks := Suc (ticks w)\<rparr>)"

definition kickoff :: "Crew \<Rightarrow> Result stmt" where
  "kickoff c w = (crew_outcome w (kickoffs w) c, w\<lparr>kickoffs := Suc (kickoffs w)\<rparr>)"

definition str_of :: "Result \<Rightarrow> str stmt" where
  "str_of r w = (res_str r, w)"

definition io :: "(world \<Rightarrow> world) \<Rightarrow> unit stmt" where
  "io effect w =
     (case io_fault w (io_ops w) of
        Some e \<Rightarrow> (Inl e, w\<lparr>io_ops := Suc (io_ops w)\<rparr>)
      | None \<Rightarrow> (Inr (), effect (w\<lparr>io_ops := Suc (io_ops w)\<rparr>)))"

text \<open>
  \<^verbatim>\<open>os.makedirs(p, exist_ok=True)\<close>; \<^verbatim>\<open>open(p, 'w', encoding='utf-8')\<close>, which
  creates the file or empties it; \<^verbatim>\<open>f.write(s)\<close> on the file opened at \<open>p\<close>;
  \<^verbatim>\<open>print(s)\<close>; \<^verbatim>\<open>input(prompt)\<close>, which raises \<^verbatim>\<open>EOFError\<close> at the end of
  the input.
\<close>

definition makedirs :: "str \<Rightarrow> unit stmt" where
  "makedirs p = io (\<lambda>w. w\<lparr>dirs := insert p (dirs w)\<rparr>)"

definition open_w :: "str \<Rightarrow> unit stmt" where
  "open_w p = io (\<lambda>w. w\<lparr>files := (files w)(p \<mapsto> [])\<rparr>)"

definition f_write :: "str \<Rightarrow> str \<Rightarrow> unit stmt" where
  "f_write p s =
     io (\<lambda>w. w\<lparr>files := (files w)(p \<mapsto> (case files w p of None \<Rightarrow> [] | Some c \<Rightarrow> c) @ s)\<rparr>)"

definition print :: "str \<Rightarrow> unit stmt" where
  "print s w = (Inr (), w\<lparr>stdout := stdout w @ s @ lit ''\<newline>''\<rparr>)"

definition input :: "str \<Rightarrow> str stmt" where
  "input prompt w =
     (case stdin w of
        [] \<Rightarrow> (Inl (Exception (lit ''EOF when reading a line'')), w\<lparr>stdout := stdout w @ prompt\<rparr>)
      | line # rest \<Rightarrow> (Inr line, w\<lparr>stdout := stdout w @ prompt, stdin := rest\<rparr>))"

section \<open>The investigation runner\<close>

definition investigation_crew :: "str \<Rightarrow> Crew" where
  "investigation_crew target = \<lparr>
     crew_agents =
       [lead_analyst,
        social_expert,
        technical_analyst,
        behavior_analyst,
        verification_expert,
        deep_search_expert,
        task_keeper,
        context_analyst],
     crew_tasks = create_investigation_plan target,
     crew_verbose = True,
     crew_process = Process_hierarchical,
     crew_manager_agent = manager_agent,
     crew_memory = False,
     crew_planning = True \<rparr>"

text \<open>The \<^verbatim>\<open>with open(...) as f:\<close> block: the report, written piece by piece.\<close>

definition write_report :: "str \<Rightarrow> str \<Rightarrow> Result \<Rightarrow> unit stmt" where
  "write_report path target result =
     bind (open_w path) (\<lambda>_.
     bind (f_write path (lit ''OSINT Investigation Report\<newline>'')) (\<lambda>_.
     bind (f_write path (str_times (lit ''='') 50 @ lit ''\<newline>\<newline>'')) (\<lambda>_.
     bind (f_write path (lit ''Assigned task: '' @ target @ lit ''\<newline>'')) (\<lambda>_.
     bind (f_write path (str_times (lit ''='') 50 @ lit ''\<newline>\<newline>'')) (\<lambda>_.
     bind (str_of result) (\<lambda>s.
     f_write path s))))))"

text \<open>The body of the \<^verbatim>\<open>try\<close>; the identifier of the run is computed and never used.\<close>

definition try_body :: "str \<Rightarrow> Result stmt" where
  "try_body target =
     bind now (\<lambda>id_time.
     let investigation_id = lit ''osint_'' @ strftime id_time in
     bind (kickoff (investigation_crew target)) (\<lambda>result.
     bind now (\<lambda>file_time.
     let timestamp = strftime file_time in
     bind (makedirs (lit ''osint_results'')) (\<lambda>_.
     bind (write_report (lit ''osint_results/investigation_'' @ timestamp @ lit ''.txt'') target result) (\<lambda>_.
     ret result)))))"

text \<open>
  \<^verbatim>\<open>run_osint_investigation\<close>: \<open>Inr (Some result)\<close> is the result returned,
  \<open>Inr None\<close> the \<^verbatim>\<open>None\<close> of the handler, and \<open>Inl e\<close> an exception the handler does
  not catch, which leaves the function.
\<close>

definition run_osint_investigation :: "str \<Rightarrow> Result option stmt" where
  "run_osint_investigation target w =
     (case try_body target w of
        (Inr result, w') \<Rightarrow> (Inr (Some result), w')
      | (Inl (Exception m), w') \<Rightarrow> bind (print (lit ''Error: '' @ m)) (\<lambda>_. ret None) w'
      | (Inl (BaseException m), w') \<Rightarrow> (Inl (BaseException m), w'))"

section \<open>The entry point\<close>

text \<open>
  The \<^verbatim>\<open>if __name__ == "__main__":\<close> block. \<^verbatim>\<open>None\<close> is false; the truth value of
  a result object is its own.
\<close>

definition main :: "unit stmt" where
  "main =
     bind (input (lit ''Enter target for OSINT: '')) (\<lambda>query.
     let formatted_task = parse_osint_query query in
     bind (run_osint_investigation formatted_task) (\<lambda>result.
     case result of
       None \<Rightarrow> ret ()
     | Some r \<Rightarrow>
         if res_bool r
         then bind (print (lit ''\<newline>Investigation results:'')) (\<lambda>_.
              bind (str_of r) (\<lambda>s.
              print s))
         else ret ()))"

section \<open>Texts and readings used by the theorems\<close>

text \<open>
  The fixed text of the f-string of \<^verbatim>\<open>parse_osint_query\<close>, with both places filled
  by the same text.
\<close>

definition task_template :: "str \<Rightarrow> str" where
  "task_template text =
     lit (''\<newline>'' @
       ''    Investigation target: '') @
     text @
     lit (''\<newline>'' @
       ''    \<newline>'' @
       ''    Required:\<newline>'' @
       ''    1. Find all available information on the target\<newline>'' @
       ''    2. Verify provided assumptions about age\<newline>'' @
       ''    3. If requested - determine the birth month\<newline>'' @
       ''    4. If requested - check presence on specialized forums\<newline>'' @
       ''    \<newline>'' @
       ''    Original query: '') @
     text @
     lit (''\<newline>'' @
       ''    '')"

text \<open>
  The normalizer as the specification words it: the prompt text is removed where it is a
  prefix of the input, surrounding whitespace is removed, and the rest is wrapped in the
  template.
\<close>

definition spec_strip_prefix :: "str \<Rightarrow> str" where
  "spec_strip_prefix q =
     (if prefix (lit ''Enter target for OSINT:'') q
      then drop (length (lit ''Enter target for OSINT:'')) q else q)"

definition spec_parse_osint_query :: "str \<Rightarrow> str" where
  "spec_parse_osint_query q = task_template (str_strip (spec_strip_prefix q))"

text \<open>
  The path of the report of a run started in the world \<open>w\<close>: its timestamp is the second
  clock reading of the run (the first one goes into the identifier of the run). The
  pieces the report is written in before the text of the result, and the whole report.
\<close>

definition report_path :: "world \<Rightarrow> str" where
  "report_path w =
     lit ''osint_results/investigation_'' @ strftime (clock w (Suc (ticks w))) @ lit ''.txt''"

definition report_pieces :: "str \<Rightarrow> str list" where
  "report_pieces target =
     [lit ''OSINT Investigation Report\<newline>'',
      str_times (lit ''='') 50 @ lit ''\<newline>\<newline>'',
      lit ''Assigned task: '' @ target @ lit ''\<newline>'',
      str_times (lit ''='') 50 @ lit ''\<newline>\<newline>'']"

definition report_text :: "str \<Rightarrow> str \<Rightarrow> str" where
  "report_text target r = concat (report_pieces target) @ r"




text \<open>
  Worlds for concrete runs: a clock that starts at 2024-01-02 03:04:05 and advances one
  second per reading, an empty disk, nothing printed yet; the orchestration outcomes, the
  faults of the file operations and the input lines are given. A result object that is a
  plain string is false exactly when it is empty. In \<open>last_write_fails\<close> the seventh file
  operation of the program, the write of the text of the result, raises.
\<close>

definition test_clock :: "nat \<Rightarrow> datetime" where
  "test_clock n = \<lparr>year = 2024, month = 1, day = 2, hour = 3, minute = 4, second = 5 + n\<rparr>"

definition test_world ::
  "(nat \<Rightarrow> Crew \<Rightarrow> exn + Result) \<Rightarrow> (nat \<Rightarrow> exn option) \<Rightarrow> str list \<Rightarrow> world" where
  "test_world outcome fault input_lines = \<lparr>
     clock = test_clock, ticks = 0, crew_outcome = outcome, kickoffs = 0,
     io_fault = fault, io_ops = 0, dirs = {}, files = Map.empty,
     stdout = lit '''', stdin = input_lines \<rparr>"

definition text_result :: "str \<Rightarrow> Result" where
  "text_result s = \<lparr> res_str = Inr s, res_bool = (s \<noteq> lit '''') \<rparr>"



section \<open>Facts about the string operations\<close>

declare str_replace.simps [simp del]
declare decimal.simps [simp del]

lemma lit_Nil: "lit [] = []"
  by (simp add: lit_def)

lemma lit_append: "lit (a @ b) = lit a @ lit b"
  by (simp add: lit_def)

lemma str_replace_Nil: "old \<noteq> [] \<Longrightarrow> str_replace old new [] = []"
  by (subst str_replace.simps) simp

lemma str_replace_Cons:
  "old \<noteq> [] \<Longrightarrow> str_replace old new (x # xs) =
     (if prefix old (x # xs) then new @ str_replace old new (drop (length old) (x # xs))
      else x # str_replace old new xs)"
  by (subst str_replace.simps) simp

lemma str_replace_prefix:
  "old \<noteq> [] \<Longrightarrow> str_replace old new (old @ r) = new @ str_replace old new r"
  by (subst str_replace.simps) simp

lemma str_replace_absent:
  "old \<noteq> [] \<Longrightarrow> \<not> sublist old s \<Longrightarrow> str_replace old new s = s"
proof (induction s)
  case Nil
  then show ?case by (simp add: str_replace_Nil)
next
  case (Cons x xs)
  from Cons.prems have no_prefix: "\<not> prefix old (x # xs)"
    using prefix_imp_sublist by blast
  from Cons.prems have "\<not> sublist old xs"
    by (meson sublist_Cons_right)
  with Cons have "str_replace old new xs = xs" by simp
  with no_prefix Cons.prems show ?case
    by (simp add: str_replace_Cons)
qed

lemma marker_nonempty: "lit ''Enter target for OSINT:'' \<noteq> []"
  by (simp add: lit_def)

lemma parse_osint_query_template:
  "parse_osint_query q =
     task_template
       (if sublist (lit ''Enter target for OSINT:'') q
        then str_strip (str_replace (lit ''Enter target for OSINT:'') (lit '''') q) else q)"
  by (simp add: parse_osint_query_def task_template_def Let_def)

section \<open>The roster and the plan\<close>

lemma roster_roles_distinct:
  "distinct (map role [lead_analyst, social_expert, technical_analyst, behavior_analyst,
     verification_expert, deep_search_expert, task_keeper, context_analyst, manager_agent])"
  by (simp add: lead_analyst_def social_expert_def technical_analyst_def behavior_analyst_def
      verification_expert_def deep_search_expert_def task_keeper_def context_analyst_def
      manager_agent_def lit_def)

lemma roster_distinct:
  "distinct [lead_analyst, social_expert, technical_analyst, behavior_analyst,
     verification_expert, deep_search_expert, task_keeper, context_analyst, manager_agent]"
  using roster_roles_distinct unfolding distinct_map by (rule conjunct1)

lemma plan_agents:
  "map agent (create_investigation_plan t) =
     [lead_analyst, social_expert, technical_analyst, behavior_analyst, lead_analyst,
      deep_search_expert, verification_expert]"
  by (simp add: create_investigation_plan_def)

text \<open>
  Claim C1. For every target string \<open>t\<close>, \<^verbatim>\<open>create_investigation_plan(t)\<close> returns
  exactly seven task descriptors, in the fixed order preliminary, social, technical,
  behavioral, aggregation, deep search, verification: the description of each one opens
  with the sentence of its stage, followed by \<open>t\<close>; so \<open>t\<close> occurs verbatim in every
  description.
\<close>

theorem create_investigation_plan_seven_in_order:
  "length (create_investigation_plan t) = 7 \<and>
   list_all2 (\<lambda>opening task. prefix (opening @ t) (description task))
     [lit (''\<newline>'' @ ''        Conduct a preliminary analysis of the target: ''),
      lit (''\<newline>'' @ ''        Based on the preliminary analysis, investigate the social networks of ''),
      lit (''\<newline>'' @ ''        Conduct a technical analysis of the found data on ''),
      lit (''\<newline>'' @ ''        Based on the collected data, analyze the behavior of ''),
      lit (''\<newline>'' @ ''        Analyze all collected data on ''),
      lit (''\<newline>'' @ ''        Conduct a deep search for information on ''),
      lit (''\<newline>'' @ ''        Verify the reliability of all collected information on '')]
     (create_investigation_plan t) \<and>
   list_all (\<lambda>task. sublist t (description task)) (create_investigation_plan t)"
  by (simp add: create_investigation_plan_def sublist_appendI)

text \<open>
  Claim C7. The manager agent is apart from the agents that work on tasks: its tool list is
  empty, it is not in the agent list of the crew, it is the agent of none of the seven
  tasks, and the crew names it only as its manager.
\<close>

theorem manager_agent_only_coordinates:
  "tools manager_agent = [] \<and>
   manager_agent \<notin> set (crew_agents (investigation_crew t)) \<and>
   manager_agent \<notin> set (map agent (create_investigation_plan t)) \<and>
   manager_agent \<notin> set (map agent (crew_tasks (investigation_crew t))) \<and>
   crew_manager_agent (investigation_crew t) = manager_agent"
proof -
  have "tools manager_agent = []"
    by (simp add: manager_agent_def)
  moreover have "manager_agent \<notin> set (crew_agents (investigation_crew t))"
    using roster_distinct by (auto simp: investigation_crew_def)
  moreover have "manager_agent \<notin> set (map agent (create_investigation_plan t))"
    using roster_distinct unfolding plan_agents by auto
  ultimately show ?thesis
    by (simp add: investigation_crew_def)
qed

text \<open>
  Claim C9. For every target, the seven tasks go to six of the eight agents of the crew:
  the lead analyst has exactly two tasks, the first and the fifth, and the task keeper and
  the context analyst are in the agent list of the crew but are the agent of no task.
\<close>

theorem plan_uses_six_of_eight_agents:
  "length (create_investigation_plan t) = 7 \<and>
   length (crew_agents (investigation_crew t)) = 8 \<and>
   distinct (crew_agents (investigation_crew t)) \<and>
   crew_tasks (investigation_crew t) = create_investigation_plan t \<and>
   set (map agent (create_investigation_plan t)) =
     {lead_analyst, social_expert, technical_analyst, behavior_analyst, deep_search_expert,
      verification_expert} \<and>
   card (set (map agent (create_investigation_plan t))) = 6 \<and>
   set (map agent (create_investigation_plan t)) \<subseteq> set (crew_agents (investigation_crew t)) \<and>
   agent (create_investigation_plan t ! 0) = lead_analyst \<and>
   agent (create_investigation_plan t ! 4) = lead_analyst \<and>
   count_list (map agent (create_investigation_plan t)) lead_analyst = 2 \<and>
   task_keeper \<in> set (crew_agents (investigation_crew t)) \<and>
   context_analyst \<in> set (crew_agents (investigation_crew t)) \<and>
   task_keeper \<notin> set (map agent (create_investigation_plan t)) \<and>
   context_analyst \<notin> set (map agent (create_investigation_plan t))"
proof -
  have len: "length (create_investigation_plan t) = 7"
    by (simp add: create_investigation_plan_def)
  have crew: "crew_agents (investigation_crew t) =
      [lead_analyst, social_expert, technical_analyst, behavior_analyst, verification_expert,
       deep_search_expert, task_keeper, context_analyst]"
    "crew_tasks (investigation_crew t) = create_investigation_plan t"
    by (simp_all add: investigation_crew_def)
  have dist: "distinct (crew_agents (investigation_crew t))"
    using roster_distinct unfolding crew by simp
  have assigned: "set (map agent (create_investigation_plan t)) =
      {lead_analyst, social_expert, technical_analyst, behavior_analyst, deep_search_expert,
       verification_expert}"
    unfolding plan_agents by auto
  have six: "card (set (map agent (create_investigation_plan t))) = 6"
  proof -
    have "distinct [lead_analyst, social_expert, technical_analyst, behavior_analyst,
        deep_search_expert, verification_expert]"
      using roster_distinct by auto
    then have "card (set [lead_analyst, social_expert, technical_analyst, behavior_analyst,
        deep_search_expert, verification_expert]) = 6"
      by (simp only: distinct_card) simp
    then show ?thesis
      unfolding assigned by simp
  qed
  have first: "agent (create_investigation_plan t ! 0) = lead_analyst"
    and fifth: "agent (create_investigation_plan t ! 4) = lead_analyst"
    by (simp_all add: create_investigation_plan_def)
  have twice: "count_list (map agent (create_investigation_plan t)) lead_analyst = 2"
    using roster_distinct unfolding plan_agents by auto
  have idle: "task_keeper \<notin> set (map agent (create_investigation_plan t))"
    "context_analyst \<notin> set (map agent (create_investigation_plan t))"
    using roster_distinct unfolding plan_agents by auto
  show ?thesis
    using len dist six first fifth twice idle unfolding assigned crew by auto
qed

text \<open>
  Claim C8. On the empty string both functions return (they are total, and no step of them
  can raise): \<^verbatim>\<open>parse_osint_query\<close> gives the template with nothing at its two places,
  and \<^verbatim>\<open>create_investigation_plan\<close> gives the seven tasks, with their agents, whose
  descriptions have nothing at the place of the target.
\<close>

theorem empty_input_well_formed:
  "length (create_investigation_plan (lit '''')) = 7 \<and>
   map agent (create_investigation_plan (lit '''')) =
     [lead_analyst, social_expert, technical_analyst, behavior_analyst, lead_analyst,
      deep_search_expert, verification_expert] \<and>
   parse_osint_query (lit '''') =
     lit (''\<newline>'' @
          ''    Investigation target: \<newline>'' @
          ''    \<newline>'' @
          ''    Required:\<newline>'' @
          ''    1. Find all available information on the target\<newline>'' @
          ''    2. Verify provided assumptions about age\<newline>'' @
          ''    3. If requested - determine the birth month\<newline>'' @
          ''    4. If requested - check presence on specialized forums\<newline>'' @
          ''    \<newline>'' @
          ''    Original query: \<newline>'' @
          ''    '') \<and>
   map description (create_investigation_plan (lit '''')) =
     [lit (''\<newline>'' @
           ''        Conduct a preliminary analysis of the target: \<newline>'' @
           ''        1. Identify main presence platforms\<newline>'' @
           ''        2. Find key identifiers (email, username, etc.)\<newline>'' @
           ''        3. Create an initial profile\<newline>'' @
           ''        4. Determine priority areas for deep analysis\<newline>'' @
           ''        \<newline>'' @
           ''        Delegate subtasks to other agents if necessary.\<newline>'' @
           ''        ''),
      lit (''\<newline>'' @
           ''        Based on the preliminary analysis, investigate the social networks of :\<newline>'' @
           ''        1. Find all related profiles\<newline>'' @
           ''        2. Analyze contacts and connections\<newline>'' @
           ''        3. Study activity history\<newline>'' @
           ''        4. Identify behavioral patterns\<newline>'' @
           ''        ''),
      lit (''\<newline>'' @
           ''        Conduct a technical analysis of the found data on :\<newline>'' @
           ''        1. Check for data leaks\<newline>'' @
           ''        2. Find related domains and IPs\<newline>'' @
           ''        3. Analyze technical metadata\<newline>'' @
           ''        4. Investigate digital footprints\<newline>'' @
           ''        ''),
      lit (''\<newline>'' @
           ''        Based on the collected data, analyze the behavior of :\<newline>'' @
           ''        1. Determine main interests\<newline>'' @
           ''        2. Identify behavioral patterns\<newline>'' @
           ''        3. Analyze social connections\<newline>'' @
           ''        4. Create a psychological profile\<newline>'' @
           ''        ''),
      lit (''\<newline>'' @
           ''        Analyze all collected data on :\<newline>'' @
           ''        1. Combine information from all agents\<newline>'' @
           ''        2. Identify data gaps\<newline>'' @
           ''        3. Plan additional search directions\<newline>'' @
           ''        4. Create a detailed target profile\<newline>'' @
           ''        ''),
      lit (''\<newline>'' @
           ''        Conduct a deep search for information on :\<newline>'' @
           ''        1. Investigate archival data and historical records\<newline>'' @
           ''        2. Analyze specialized databases\<newline>'' @
           ''        3. Find non-obvious connections and mentions\<newline>'' @
           ''        4. Investigate rare and specific sources\<newline>'' @
           ''        ''),
      lit (''\<newline>'' @
           ''        Verify the reliability of all collected information on :\<newline>'' @
           ''        1. Conduct cross-reference analysis of data\<newline>'' @
           ''        2. Confirm information from multiple sources\<newline>'' @
           ''        3. Identify possible misinformation\<newline>'' @
           ''        4. Assess the reliability of each source\<newline>'' @
           ''        '')]
"
  by (simp add: create_investigation_plan_def parse_osint_query_def lit_Nil marker_nonempty
      sublist_code lit_append [symmetric] del: append_assoc)

section \<open>The query normalizer\<close>

lemma sublist_marker_evals:
  "\<not> sublist (lit ''Enter target for OSINT:'') (lit ''bob'')"
  "\<not> sublist (lit ''Enter target for OSINT:'') (lit '' bob '')"
  "sublist (lit ''Enter target for OSINT:'') (lit ''a Enter target for OSINT:b'')"
  "\<not> prefix (lit ''Enter target for OSINT:'') (lit ''a Enter target for OSINT:b'')"
  by (simp_all add: lit_def sublist_code)

lemma str_strip_evals:
  "str_strip (lit '' bob '') = lit ''bob''"
  "str_strip (lit ''a b'') = lit ''a b''"
  "str_strip (lit ''a Enter target for OSINT:b'') = lit ''a Enter target for OSINT:b''"
  by (simp_all add: lit_def str_strip_def str_lstrip_def str_rstrip_def isspace_def)

lemma str_replace_eval:
  "str_replace (lit ''Enter target for OSINT:'') (lit '''') (lit ''a Enter target for OSINT:b'') =
     lit ''a b''"
  by (simp add: lit_def str_replace_Cons str_replace_Nil)

text \<open>
  Claim C5, as amended. For every input string: when the prompt text
  \<^verbatim>\<open>Enter target for OSINT:\<close> does not occur in the input, \<^verbatim>\<open>parse_osint_query\<close>
  uses the input unchanged (surrounding whitespace kept); when it occurs anywhere in the
  input, every occurrence is removed (not only a leading one) and the rest is stripped of
  surrounding whitespace. In particular an input that starts with the prompt text and does
  not hold it again yields the rest of the input, stripped. The text so obtained stands at
  the two places of the fixed template (the line \<^verbatim>\<open>Investigation target:\<close> and the line
  \<^verbatim>\<open>Original query:\<close>, around the four fixed instructions). The function is total and
  has no error case.
\<close>

theorem parse_osint_query_removes_prompt:
  "(\<not> sublist (lit ''Enter target for OSINT:'') q \<longrightarrow> parse_osint_query q = task_template q) \<and>
   (sublist (lit ''Enter target for OSINT:'') q \<longrightarrow>
      parse_osint_query q =
        task_template (str_strip (str_replace (lit ''Enter target for OSINT:'') (lit '''') q))) \<and>
   (\<not> sublist (lit ''Enter target for OSINT:'') r \<longrightarrow>
      parse_osint_query (lit ''Enter target for OSINT:'' @ r) = task_template (str_strip r))"
proof -
  have "sublist (lit ''Enter target for OSINT:'') (lit ''Enter target for OSINT:'' @ r)"
    by (simp add: prefix_imp_sublist)
  moreover have "\<not> sublist (lit ''Enter target for OSINT:'') r \<Longrightarrow>
      str_replace (lit ''Enter target for OSINT:'') (lit '''') (lit ''Enter target for OSINT:'' @ r) = r"
    using str_replace_prefix [OF marker_nonempty, of "lit ''''" r]
      str_replace_absent [OF marker_nonempty, of r "lit ''''"]
    by (simp add: lit_Nil)
  ultimately show ?thesis
    by (simp add: parse_osint_query_template)
qed

theorem parse_osint_query_removes_prompt_witness:
  "parse_osint_query (lit ''bob'') = task_template (lit ''bob'') \<and>
   parse_osint_query (lit ''a Enter target for OSINT:b'') = task_template (lit ''a b'') \<and>
   parse_osint_query (lit ''Enter target for OSINT: bob '') = task_template (lit ''bob'')"
proof -
  have split: "lit ''Enter target for OSINT: bob '' = lit ''Enter target for OSINT:'' @ lit '' bob ''"
    by (simp add: lit_append [symmetric])
  show ?thesis
    using parse_osint_query_removes_prompt [of "lit ''bob''" "lit '' bob ''"]
      parse_osint_query_removes_prompt [of "lit ''a Enter target for OSINT:b''" "lit '' bob ''"]
    unfolding split
    by (simp add: sublist_marker_evals str_strip_evals str_replace_eval)
qed

text \<open>
  Claim C5 as stated fails: in \<^verbatim>\<open>a Enter target for OSINT:b\<close> the prompt text is not a
  prefix and no whitespace surrounds the input, so the normalizer of the specification
  restates the input as it is; the code removes the prompt text from the middle and
  restates \<^verbatim>\<open>a b\<close>.
\<close>

theorem prompt_inside_query_removed:
  "\<not> prefix (lit ''Enter target for OSINT:'') (lit ''a Enter target for OSINT:b'') \<and>
   spec_parse_osint_query (lit ''a Enter target for OSINT:b'') =
     task_template (lit ''a Enter target for OSINT:b'') \<and>
   parse_osint_query (lit ''a Enter target for OSINT:b'') = task_template (lit ''a b'') \<and>
   parse_osint_query (lit ''a Enter target for OSINT:b'') \<noteq>
     spec_parse_osint_query (lit ''a Enter target for OSINT:b'')"
proof -
  have spec: "spec_parse_osint_query (lit ''a Enter target for OSINT:b'') =
      task_template (lit ''a Enter target for OSINT:b'')"
    by (simp add: spec_parse_osint_query_def spec_strip_prefix_def sublist_marker_evals
        str_strip_evals)
  have code: "parse_osint_query (lit ''a Enter target for OSINT:b'') = task_template (lit ''a b'')"
    by (simp add: parse_osint_query_template sublist_marker_evals str_replace_eval
        str_strip_evals)
  have "task_template (lit ''a b'') \<noteq> task_template (lit ''a Enter target for OSINT:b'')"
    by (simp add: task_template_def) (simp add: lit_def)
  with spec code show ?thesis
    by (simp add: sublist_marker_evals)
qed

section \<open>Time stamps\<close>

lemma decimal_lt10: "n < 10 \<Longrightarrow> decimal n = [48 + n]"
  by (subst decimal.simps) simp

lemma decimal_ge10: "\<not> n < 10 \<Longrightarrow> decimal n = decimal (n div 10) @ [48 + n mod 10]"
  by (subst decimal.simps) simp









lemma strftime_test_clock:
  "strftime (test_clock (Suc 0)) = lit ''20240102_030406''"
  "strftime (test_clock (Suc (Suc (Suc 0)))) = lit ''20240102_030408''"
  by (simp_all add: strftime_def test_clock_def zfill_def decimal_lt10 decimal_ge10 lit_def)


lemma test_timestamps_differ: "lit ''20240102_030406'' \<noteq> lit ''20240102_030408''"
  by (simp add: lit_def)



section \<open>The steps of a run\<close>

lemmas run_defs = run_osint_investigation_def try_body_def write_report_def bind_def now_def
  kickoff_def Let_def io_def makedirs_def open_w_def f_write_def str_of_def ret_def print_def

lemma test_world_simps:
  "clock (test_world outcome fault ls) = test_clock"
  "ticks (test_world outcome fault ls) = 0"
  "crew_outcome (test_world outcome fault ls) = outcome"
  "kickoffs (test_world outcome fault ls) = 0"
  "io_fault (test_world outcome fault ls) = fault"
  "io_ops (test_world outcome fault ls) = 0"
  "dirs (test_world outcome fault ls) = {}"
  "files (test_world outcome fault ls) = Map.empty"
  "stdout (test_world outcome fault ls) = []"
  "stdin (test_world outcome fault ls) = ls"
  by (simp_all add: test_world_def lit_def)

lemma try_body_kickoff_raises:
  "crew_outcome w (kickoffs w) (investigation_crew T) = Inl e \<Longrightarrow>
   try_body T w = (Inl e, w\<lparr>ticks := Suc (ticks w), kickoffs := Suc (kickoffs w)\<rparr>)"
  by (simp add: try_body_def bind_def now_def kickoff_def Let_def)

lemma try_body_success:
  assumes "crew_outcome w (kickoffs w) (investigation_crew T) = Inr r"
    and "res_str r = Inr R"
    and "\<forall>k<7. io_fault w (io_ops w + k) = None"
  shows "try_body T w =
    (Inr r, w\<lparr>ticks := Suc (Suc (ticks w)), kickoffs := Suc (kickoffs w),
       io_ops := io_ops w + 7,
       dirs := insert (lit ''osint_results'') (dirs w),
       files := (files w)(report_path w \<mapsto> report_text T R)\<rparr>)"
proof -
  have f: "io_fault w (io_ops w) = None" "io_fault w (Suc (io_ops w)) = None"
    "io_fault w (Suc (Suc (io_ops w))) = None" "io_fault w (Suc (Suc (Suc (io_ops w)))) = None"
    "io_fault w (Suc (Suc (Suc (Suc (io_ops w))))) = None"
    "io_fault w (Suc (Suc (Suc (Suc (Suc (io_ops w)))))) = None"
    "io_fault w (Suc (Suc (Suc (Suc (Suc (Suc (io_ops w))))))) = None"
    using assms(3) [rule_format, of 0] assms(3) [rule_format, of 1] assms(3) [rule_format, of 2]
      assms(3) [rule_format, of 3] assms(3) [rule_format, of 4] assms(3) [rule_format, of 5]
      assms(3) [rule_format, of 6]
    by (simp_all add: eval_nat_numeral)
  show ?thesis
    using assms(1,2) f
    by (simp add: try_body_def write_report_def bind_def now_def kickoff_def Let_def io_def
        makedirs_def open_w_def f_write_def str_of_def ret_def report_path_def report_text_def
        report_pieces_def eval_nat_numeral)
qed

lemma run_kickoff_raises:
  assumes "crew_outcome w (kickoffs w) (investigation_crew T) = Inl e"
  shows "run_osint_investigation T w =
    (case e of
       Exception m \<Rightarrow>
         (Inr None, w\<lparr>ticks := Suc (ticks w), kickoffs := Suc (kickoffs w),
            stdout := stdout w @ lit ''Error: '' @ m @ lit ''\<newline>''\<rparr>)
     | BaseException m \<Rightarrow>
         (Inl (BaseException m), w\<lparr>ticks := Suc (ticks w), kickoffs := Suc (kickoffs w)\<rparr>))"
  using try_body_kickoff_raises [OF assms]
  by (simp add: run_osint_investigation_def bind_def print_def ret_def split: exn.splits)

lemma run_success:
  assumes "crew_outcome w (kickoffs w) (investigation_crew T) = Inr r"
    and "res_str r = Inr R"
    and "\<forall>k<7. io_fault w (io_ops w + k) = None"
  shows "run_osint_investigation T w =
    (Inr (Some r), w\<lparr>ticks := Suc (Suc (ticks w)), kickoffs := Suc (kickoffs w),
       io_ops := io_ops w + 7,
       dirs := insert (lit ''osint_results'') (dirs w),
       files := (files w)(report_path w \<mapsto> report_text T R)\<rparr>)"
  using try_body_success [OF assms] by (simp add: run_osint_investigation_def)

lemma run_success_inv:
  assumes "run_osint_investigation T w = (Inr (Some r), w')"
  shows "crew_outcome w (kickoffs w) (investigation_crew T) = Inr r"
    and "\<exists>R. res_str r = Inr R \<and>
      w' = w\<lparr>ticks := Suc (Suc (ticks w)), kickoffs := Suc (kickoffs w),
       io_ops := io_ops w + 7,
       dirs := insert (lit ''osint_results'') (dirs w),
       files := (files w)(report_path w \<mapsto> report_text T R)\<rparr>"
  using assms
  by (auto simp: run_defs report_path_def report_text_def report_pieces_def eval_nat_numeral
      split: sum.splits option.splits exn.splits prod.splits)

lemma run_success_file:
  assumes "run_osint_investigation T w = (Inr (Some r), w')"
  shows "\<exists>R. res_str r = Inr R \<and> files w' (report_path w) = Some (report_text T R)"
  using run_success_inv(2) [OF assms] by auto

lemma run_frame:
  assumes "run_osint_investigation T w = (out, w')" and "q \<noteq> report_path w"
  shows "files w' q = files w q"
  using assms
  by (auto simp: run_defs report_path_def split: sum.splits option.splits exn.splits prod.splits)





section \<open>Concrete runs\<close>

lemma run_test_world_ok:
  "run_osint_investigation T
     (test_world (\<lambda>n c. Inr (text_result s)) (\<lambda>n. None) ls) =
   (Inr (Some (text_result s)),
    test_world (\<lambda>n c. Inr (text_result s)) (\<lambda>n. None) ls
      \<lparr>ticks := 2, kickoffs := 1, io_ops := 7,
       dirs := {lit ''osint_results''},
       files := [lit ''osint_results/investigation_20240102_030406.txt'' \<mapsto> report_text T s]\<rparr>)"
  using run_success [of "test_world (\<lambda>n c. Inr (text_result s)) (\<lambda>n. None) ls" T
      "text_result s" s]
  by (simp add: test_world_simps text_result_def report_path_def strftime_test_clock
      lit_append [symmetric] eval_nat_numeral)

lemma run_test_world_ok_again:
  "run_osint_investigation T
     (test_world (\<lambda>n c. Inr (text_result s)) (\<lambda>n. None) ls
      \<lparr>ticks := 2, kickoffs := 1, io_ops := 7,
       dirs := {lit ''osint_results''},
       files := [lit ''osint_results/investigation_20240102_030406.txt'' \<mapsto> report_text T s]\<rparr>) =
   (Inr (Some (text_result s)),
    test_world (\<lambda>n c. Inr (text_result s)) (\<lambda>n. None) ls
      \<lparr>ticks := 4, kickoffs := 2, io_ops := 14,
       dirs := {lit ''osint_results''},
       files := [lit ''osint_results/investigation_20240102_030406.txt'' \<mapsto> report_text T s,
         lit ''osint_results/investigation_20240102_030408.txt'' \<mapsto> report_text T s]\<rparr>)"
  using run_success [of "test_world (\<lambda>n c. Inr (text_result s)) (\<lambda>n. None) ls
      \<lparr>ticks := 2, kickoffs := 1, io_ops := 7,
       dirs := {lit ''osint_results''},
       files := [lit ''osint_results/investigation_20240102_030406.txt'' \<mapsto> report_text T s]\<rparr>"
      T "text_result s" s]
  by (simp add: test_world_simps text_result_def report_path_def strftime_test_clock
      lit_append [symmetric] eval_nat_numeral)

lemma run_test_world_after_input:
  "run_osint_investigation T
     (test_world (\<lambda>n c. Inr (text_result s)) (\<lambda>n. None) (q # ls)
        \<lparr>stdout := stdout (test_world (\<lambda>n c. Inr (text_result s)) (\<lambda>n. None) (q # ls)) @
           lit ''Enter target for OSINT: '',
         stdin := ls\<rparr>) =
   (Inr (Some (text_result s)),
    test_world (\<lambda>n c. Inr (text_result s)) (\<lambda>n. None) (q # ls)
      \<lparr>ticks := 2, kickoffs := 1, io_ops := 7,
       dirs := {lit ''osint_results''},
       files := [lit ''osint_results/investigation_20240102_030406.txt'' \<mapsto> report_text T s],
       stdout := lit ''Enter target for OSINT: '',
       stdin := ls\<rparr>)"
  using run_success [of "test_world (\<lambda>n c. Inr (text_result s)) (\<lambda>n. None) (q # ls)
        \<lparr>stdout := stdout (test_world (\<lambda>n c. Inr (text_result s)) (\<lambda>n. None) (q # ls)) @
           lit ''Enter target for OSINT: '',
         stdin := ls\<rparr>" T "text_result s" s]
  by (simp add: test_world_simps text_result_def report_path_def strftime_test_clock
      lit_append [symmetric] eval_nat_numeral)

lemma run_test_world_raises_after_input:
  "run_osint_investigation T
     (test_world (\<lambda>n c. Inl (Exception m)) (\<lambda>n. None) (q # ls)
        \<lparr>stdout := stdout (test_world (\<lambda>n c. Inl (Exception m)) (\<lambda>n. None) (q # ls)) @
           lit ''Enter target for OSINT: '',
         stdin := ls\<rparr>) =
   (Inr None,
    test_world (\<lambda>n c. Inl (Exception m)) (\<lambda>n. None) (q # ls)
      \<lparr>ticks := 1, kickoffs := 1,
       stdout := lit ''Enter target for OSINT: '' @ lit ''Error: '' @ m @ lit ''\<newline>'',
       stdin := ls\<rparr>)"
  using run_kickoff_raises [of "test_world (\<lambda>n c. Inl (Exception m)) (\<lambda>n. None) (q # ls)
        \<lparr>stdout := stdout (test_world (\<lambda>n c. Inl (Exception m)) (\<lambda>n. None) (q # ls)) @
           lit ''Enter target for OSINT: '',
         stdin := ls\<rparr>" T "Exception m"]
  by (simp add: test_world_simps)


section \<open>The report of a successful run\<close>



section \<open>Failing runs\<close>







section \<open>Successive runs\<close>

text \<open>
  Claim C6. For every target, when \<^verbatim>\<open>run_osint_investigation\<close> is called twice in
  succession, both runs return their results, and the timestamps of the two file names
  differ, the two report files are distinct and both are on disk afterwards, each with the
  report of its own run: the second run does not overwrite the file of the first.
\<close>

theorem successive_runs_keep_both_reports:
  assumes "run_osint_investigation T w = (Inr (Some r1), w1)"
    and "run_osint_investigation T w1 = (Inr (Some r2), w2)"
    and "strftime (clock w (Suc (ticks w))) \<noteq> strftime (clock w1 (Suc (ticks w1)))"
  shows "report_path w \<noteq> report_path w1 \<and>
         (\<exists>R1 R2. res_str r1 = Inr R1 \<and> res_str r2 = Inr R2 \<and>
            files w1 (report_path w) = Some (report_text T R1) \<and>
            files w2 (report_path w) = Some (report_text T R1) \<and>
            files w2 (report_path w1) = Some (report_text T R2))"
proof -
  have paths: "report_path w \<noteq> report_path w1"
    using assms(3) by (simp add: report_path_def)
  from run_success_file [OF assms(1)] obtain R1 where
    R1: "res_str r1 = Inr R1" "files w1 (report_path w) = Some (report_text T R1)"
    by blast
  from run_success_file [OF assms(2)] obtain R2 where
    R2: "res_str r2 = Inr R2" "files w2 (report_path w1) = Some (report_text T R2)"
    by blast
  have "files w2 (report_path w) = files w1 (report_path w)"
    using run_frame [OF assms(2) paths] .
  with paths R1 R2 show ?thesis by simp
qed

theorem successive_runs_keep_both_reports_witness:
  "lit ''osint_results/investigation_20240102_030406.txt'' \<noteq>
     lit ''osint_results/investigation_20240102_030408.txt'' \<and>
   files (snd (run_osint_investigation (lit ''bob'')
       (test_world (\<lambda>n c. Inr (text_result (lit ''ok''))) (\<lambda>n. None) [])))
     (lit ''osint_results/investigation_20240102_030406.txt'') =
     Some (report_text (lit ''bob'') (lit ''ok'')) \<and>
   files (snd (run_osint_investigation (lit ''bob'')
       (snd (run_osint_investigation (lit ''bob'')
          (test_world (\<lambda>n c. Inr (text_result (lit ''ok''))) (\<lambda>n. None) [])))))
     (lit ''osint_results/investigation_20240102_030406.txt'') =
     Some (report_text (lit ''bob'') (lit ''ok'')) \<and>
   files (snd (run_osint_investigation (lit ''bob'')
       (snd (run_osint_investigation (lit ''bob'')
          (test_world (\<lambda>n c. Inr (text_result (lit ''ok''))) (\<lambda>n. None) [])))))
     (lit ''osint_results/investigation_20240102_030408.txt'') =
     Some (report_text (lit ''bob'') (lit ''ok''))"
proof -
  let ?w = "test_world (\<lambda>n c. Inr (text_result (lit ''ok''))) (\<lambda>n. None) []"
  let ?w1 = "?w\<lparr>ticks := 2, kickoffs := 1, io_ops := 7,
       dirs := {lit ''osint_results''},
       files := [lit ''osint_results/investigation_20240102_030406.txt'' \<mapsto>
         report_text (lit ''bob'') (lit ''ok'')]\<rparr>"
  let ?w2 = "?w\<lparr>ticks := 4, kickoffs := 2, io_ops := 14,
       dirs := {lit ''osint_results''},
       files := [lit ''osint_results/investigation_20240102_030406.txt'' \<mapsto>
           report_text (lit ''bob'') (lit ''ok''),
         lit ''osint_results/investigation_20240102_030408.txt'' \<mapsto>
           report_text (lit ''bob'') (lit ''ok'')]\<rparr>"
  have p: "report_path ?w = lit ''osint_results/investigation_20240102_030406.txt''"
    by (simp add: report_path_def test_world_simps strftime_test_clock lit_append [symmetric])
  have p1: "report_path ?w1 = lit ''osint_results/investigation_20240102_030408.txt''"
    by (simp add: report_path_def test_world_simps strftime_test_clock lit_append [symmetric]
        eval_nat_numeral)
  have ts: "strftime (clock ?w (Suc (ticks ?w))) \<noteq> strftime (clock ?w1 (Suc (ticks ?w1)))"
    by (simp add: test_world_simps strftime_test_clock test_timestamps_differ eval_nat_numeral)
  have s1: "snd (run_osint_investigation (lit ''bob'') ?w) = ?w1"
    by (simp only: run_test_world_ok snd_conv)
  have s2: "snd (run_osint_investigation (lit ''bob'') ?w1) = ?w2"
    by (simp only: run_test_world_ok_again snd_conv)
  from successive_runs_keep_both_reports [OF run_test_world_ok run_test_world_ok_again ts]
  obtain R1 R2 where paths: "report_path ?w \<noteq> report_path ?w1"
    and R: "res_str (text_result (lit ''ok'')) = Inr R1"
      "res_str (text_result (lit ''ok'')) = Inr R2"
    and f: "files ?w1 (report_path ?w) = Some (report_text (lit ''bob'') R1)"
      "files ?w2 (report_path ?w) = Some (report_text (lit ''bob'') R1)"
      "files ?w2 (report_path ?w1) = Some (report_text (lit ''bob'') R2)"
    by blast
  from R have "R1 = lit ''ok''" "R2 = lit ''ok''"
    by (simp_all add: text_result_def)
  with paths f show ?thesis
    unfolding s1 s2 p p1 by simp
qed

section \<open>The entry point\<close>

lemma main_after_input:
  assumes "stdin w = query # rest"
    and "run_osint_investigation (parse_osint_query query)
           (w\<lparr>stdout := stdout w @ lit ''Enter target for OSINT: '', stdin := rest\<rparr>) = (out, w1)"
  shows "main w =
    (case out of
       Inl e \<Rightarrow> (Inl e, w1)
     | Inr None \<Rightarrow> (Inr (), w1)
     | Inr (Some r) \<Rightarrow>
         if res_bool r
         then (case res_str r of
                 Inl e \<Rightarrow>
                   (Inl e, w1\<lparr>stdout := stdout w1 @ lit ''\<newline>Investigation results:'' @ lit ''\<newline>''\<rparr>)
               | Inr s \<Rightarrow>
                   (Inr (), w1\<lparr>stdout := stdout w1 @ lit ''\<newline>Investigation results:'' @ lit ''\<newline>'' @
                      s @ lit ''\<newline>''\<rparr>))
         else (Inr (), w1))"
  using assms
  by (simp add: main_def bind_def input_def Let_def ret_def print_def str_of_def
      split: sum.splits option.splits)

lemma report_path_after_input:
  "report_path (w\<lparr>stdout := s, stdin := l\<rparr>) = report_path w"
  by (simp add: report_path_def)

text \<open>
  Claim C10. At the entry point, after the query has been read and the run made, the line
  \<^verbatim>\<open>Investigation results:\<close> and the result are printed only when the run returned a
  result that is true: when the run returns \<^verbatim>\<open>None\<close> nothing further is printed; when
  the run returns a result that is false, the report file has been written and nothing
  further is printed either, the world being left as the run left it, as in the failure
  case; when the result is true, the heading and the text of the result are printed.
\<close>

theorem results_printed_only_for_truthy_result:
  assumes "stdin w = query # rest"
    and "run_osint_investigation (parse_osint_query query)
           (w\<lparr>stdout := stdout w @ lit ''Enter target for OSINT: '', stdin := rest\<rparr>) = (out, w1)"
  shows "(out = Inr None \<longrightarrow> main w = (Inr (), w1)) \<and>
         (\<forall>r. out = Inr (Some r) \<and> \<not> res_bool r \<longrightarrow>
            main w = (Inr (), w1) \<and>
            (\<exists>R. res_str r = Inr R \<and>
               files w1 (report_path w) = Some (report_text (parse_osint_query query) R))) \<and>
         (\<forall>r. out = Inr (Some r) \<and> res_bool r \<longrightarrow>
            (\<exists>R. res_str r = Inr R \<and>
               main w = (Inr (), w1\<lparr>stdout := stdout w1 @ lit ''\<newline>Investigation results:'' @
                  lit ''\<newline>'' @ R @ lit ''\<newline>''\<rparr>))) \<and>
         (stdout (snd (main w)) \<noteq> stdout w1 \<longrightarrow> (\<exists>r. out = Inr (Some r) \<and> res_bool r))"
proof -
  note m = main_after_input [OF assms]
  have a: "out = Inr None \<longrightarrow> main w = (Inr (), w1)"
    using m by simp
  have b: "main w = (Inr (), w1) \<and>
      (\<exists>R. res_str r = Inr R \<and>
         files w1 (report_path w) = Some (report_text (parse_osint_query query) R))"
    if "out = Inr (Some r) \<and> \<not> res_bool r" for r
  proof -
    from that assms(2) have "run_osint_investigation (parse_osint_query query)
        (w\<lparr>stdout := stdout w @ lit ''Enter target for OSINT: '', stdin := rest\<rparr>) =
        (Inr (Some r), w1)"
      by simp
    from run_success_file [OF this] obtain R where "res_str r = Inr R"
      "files w1 (report_path w) = Some (report_text (parse_osint_query query) R)"
      unfolding report_path_after_input by blast
    with that m show ?thesis by simp
  qed
  have c: "\<exists>R. res_str r = Inr R \<and>
      main w = (Inr (), w1\<lparr>stdout := stdout w1 @ lit ''\<newline>Investigation results:'' @
         lit ''\<newline>'' @ R @ lit ''\<newline>''\<rparr>)"
    if "out = Inr (Some r) \<and> res_bool r" for r
  proof -
    from that assms(2) have "run_osint_investigation (parse_osint_query query)
        (w\<lparr>stdout := stdout w @ lit ''Enter target for OSINT: '', stdin := rest\<rparr>) =
        (Inr (Some r), w1)"
      by simp
    from run_success_file [OF this] obtain R where "res_str r = Inr R"
      by blast
    with that m show ?thesis by simp
  qed
  have d: "stdout (snd (main w)) \<noteq> stdout w1 \<longrightarrow> (\<exists>r. out = Inr (Some r) \<and> res_bool r)"
    using m by (auto split: sum.splits option.splits if_splits)
  from a b c d show ?thesis by blast
qed

theorem results_printed_only_for_truthy_result_witness:
  "main (test_world (\<lambda>n c. Inr (text_result (lit ''''))) (\<lambda>n. None) [lit ''bob'']) =
     (Inr (),
      test_world (\<lambda>n c. Inr (text_result (lit ''''))) (\<lambda>n. None) [lit ''bob'']
        \<lparr>ticks := 2, kickoffs := 1, io_ops := 7,
         dirs := {lit ''osint_results''},
         files := [lit ''osint_results/investigation_20240102_030406.txt'' \<mapsto>
           report_text (parse_osint_query (lit ''bob'')) (lit '''')],
         stdout := lit ''Enter target for OSINT: '',
         stdin := []\<rparr>) \<and>
   main (test_world (\<lambda>n c. Inl (Exception (lit ''boom''))) (\<lambda>n. None) [lit ''bob'']) =
     (Inr (),
      test_world (\<lambda>n c. Inl (Exception (lit ''boom''))) (\<lambda>n. None) [lit ''bob'']
        \<lparr>ticks := 1, kickoffs := 1,
         stdout := lit (''Enter target for OSINT: '' @ ''Error: boom\<newline>''),
         stdin := []\<rparr>) \<and>
   main (test_world (\<lambda>n c. Inr (text_result (lit ''ok''))) (\<lambda>n. None) [lit ''bob'']) =
     (Inr (),
      test_world (\<lambda>n c. Inr (text_result (lit ''ok''))) (\<lambda>n. None) [lit ''bob'']
        \<lparr>ticks := 2, kickoffs := 1, io_ops := 7,
         dirs := {lit ''osint_results''},
         files := [lit ''osint_results/investigation_20240102_030406.txt'' \<mapsto>
           report_text (parse_osint_query (lit ''bob'')) (lit ''ok'')],
         stdout := lit (''Enter target for OSINT: '' @ ''\<newline>Investigation results:\<newline>'' @
           ''ok\<newline>''),
         stdin := []\<rparr>)"
proof -
  have i: "stdin (test_world outcome (\<lambda>n. None) [lit ''bob'']) = lit ''bob'' # []" for outcome
    by (simp add: test_world_simps)
  have ok: "lit ''ok'' \<noteq> lit ''''"
    by (simp add: lit_def)
  note falsy = run_test_world_after_input
    [where T = "parse_osint_query (lit ''bob'')" and s = "lit ''''" and q = "lit ''bob''"
      and ls = "[]"]
  note raises = run_test_world_raises_after_input
    [where T = "parse_osint_query (lit ''bob'')" and m = "lit ''boom''" and q = "lit ''bob''"
      and ls = "[]"]
  note truthy = run_test_world_after_input
    [where T = "parse_osint_query (lit ''bob'')" and s = "lit ''ok''" and q = "lit ''bob''"
      and ls = "[]"]
  show ?thesis
    using results_printed_only_for_truthy_result [OF i falsy]
      results_printed_only_for_truthy_result [OF i raises]
      results_printed_only_for_truthy_result [OF i truthy]
    by (simp add: text_result_def ok lit_append [symmetric])
qed

end
